theory Spec2Isabelle
  imports Main "HOL-Library.AList"
begin

section \<open>Python values, exceptions and outcomes\<close>

text \<open>
  The embedding follows \<^verbatim>\<open>src/roam_unofficial/roam.py\<close>. Python strings are
  modelled as \<^typ>\<open>string\<close>, one \<^typ>\<open>char\<close> per code point below 256.
  The values a wrapped function receives are \<^verbatim>\<open>None\<close>, booleans, integers and
  strings.
\<close>

datatype pyval = PyNone | PyBool bool | PyInt int | PyStr string

text \<open>
  An exception carries its class and its argument. \<open>OtherException c m\<close> is an
  instance of any further subclass \<open>c\<close> of \<^verbatim>\<open>Exception\<close> (a transport error of
  the HTTP library, a user-defined error); \<open>NonException c m\<close> is an instance of a
  class that derives from \<^verbatim>\<open>BaseException\<close> only (\<^verbatim>\<open>KeyboardInterrupt\<close>,
  \<^verbatim>\<open>SystemExit\<close>), which \<^verbatim>\<open>except Exception\<close> does not catch.
\<close>

datatype pyexc =
    ValueError string
  | KeyError string
  | IndexError string
  | TypeError string
  | AttributeError string
  | OtherException string string
  | NonException string string

fun is_Exception :: "pyexc \<Rightarrow> bool" where
  "is_Exception (NonException c m) = False"
| "is_Exception e = True"

text \<open>
  A call returns, raises, or leaves the fragment of the Python library that the
  embedding covers (\<open>Unmodelled\<close>): replacement fields with a conversion, a format
  specification, an attribute or an index, numbered fields, and \<^verbatim>\<open>dict()\<close> of a
  non-empty list.
\<close>

datatype 'a outcome = Return 'a | Raise pyexc | Unmodelled

subsection \<open>\<^verbatim>\<open>repr\<close> of a string and \<^verbatim>\<open>str\<close> of a value\<close>

definition hex_digit :: "nat \<Rightarrow> char" where
  "hex_digit n = ''0123456789abcdef'' ! (n mod 16)"

definition repr_quote :: "string \<Rightarrow> char" where
  "repr_quote s = (if CHR 0x27 \<in> set s \<and> CHR 0x22 \<notin> set s then CHR 0x22 else CHR 0x27)"

definition repr_char :: "char \<Rightarrow> char \<Rightarrow> string" where
  "repr_char q c =
     (let n = (of_char c :: nat) in
      if c = q \<or> c = CHR 0x5C then [CHR 0x5C, c]
      else if n = 9 then [CHR 0x5C, CHR ''t'']
      else if n = 10 then [CHR 0x5C, CHR ''n'']
      else if n = 13 then [CHR 0x5C, CHR ''r'']
      else if n < 32 \<or> n = 127 \<or> (128 \<le> n \<and> n \<le> 160) \<or> n = 173
        then [CHR 0x5C, CHR ''x'', hex_digit (n div 16), hex_digit n]
      else [c])"

definition py_repr :: "string \<Rightarrow> string" where
  "py_repr s = (let q = repr_quote s in q # concat (map (repr_char q) s) @ [q])"

fun dec_nat :: "nat \<Rightarrow> string" where
  "dec_nat n =
     (if n < 10 then [char_of (48 + n)]
      else dec_nat (n div 10) @ [char_of (48 + n mod 10)])"

declare dec_nat.simps [simp del]

text \<open>
  \<^verbatim>\<open>str\<close> of a value. By default CPython 3.11 refuses to convert an integer of more
  than 4300 digits.
\<close>

fun py_str :: "pyval \<Rightarrow> string outcome" where
  "py_str PyNone = Return ''None''"
| "py_str (PyBool b) = Return (if b then ''True'' else ''False'')"
| "py_str (PyInt i) =
     (let digits = dec_nat (nat \<bar>i\<bar>)
      in if 4300 < length digits
           then Raise (ValueError
                  (''Exceeds the limit (4300 digits) for integer string conversion; ''
                   @ ''use sys.set_int_max_str_digits() to increase the limit''))
         else Return (if i < 0 then CHR ''-'' # digits else digits))"
| "py_str (PyStr s) = Return s"

text \<open>\<^verbatim>\<open>str(e)\<close>: the message, except for a \<^verbatim>\<open>KeyError\<close>, which shows the \<^verbatim>\<open>repr\<close> of its key.\<close>

fun str_exc :: "pyexc \<Rightarrow> string" where
  "str_exc (KeyError k) = py_repr k"
| "str_exc (ValueError m) = m"
| "str_exc (IndexError m) = m"
| "str_exc (TypeError m) = m"
| "str_exc (AttributeError m) = m"
| "str_exc (OtherException c m) = m"
| "str_exc (NonException c m) = m"

subsection \<open>\<^verbatim>\<open>str.format\<close> with keyword arguments only\<close>

fun emit :: "string \<Rightarrow> string outcome \<Rightarrow> string outcome" where
  "emit s (Return t) = Return (s @ t)"
| "emit s (Raise e) = Raise e"
| "emit s Unmodelled = Unmodelled"

definition is_digit :: "char \<Rightarrow> bool" where
  "is_digit c = (c \<in> set ''0123456789'')"

text \<open>
  The value of one replacement field. No positional argument is ever passed, so the
  empty field name (automatic numbering) is out of range; a name is looked up among
  the keyword arguments and rendered with the empty format specification, which is
  \<^verbatim>\<open>str\<close> for the values of \<^typ>\<open>pyval\<close>.
\<close>

definition get_field :: "(string \<times> pyval) list \<Rightarrow> string \<Rightarrow> string outcome" where
  "get_field kw field_name =
     (if field_name = []
        then Raise (IndexError ''Replacement index 0 out of range for positional args tuple'')
      else if list_all is_digit field_name then Unmodelled
      else case map_of kw field_name of
             None \<Rightarrow> Raise (KeyError field_name)
           | Some v \<Rightarrow> py_str v)"

text \<open>
  The scan of the format string, left to right: literal text with the doubled braces,
  and the replacement field between a single \<open>{\<close> and the next \<open>}\<close>.
\<close>

fun fmt_text :: "(string \<times> pyval) list \<Rightarrow> string \<Rightarrow> string outcome"
  and fmt_field :: "(string \<times> pyval) list \<Rightarrow> string \<Rightarrow> string \<Rightarrow> string outcome" where
  "fmt_text kw [] = Return []"
| "fmt_text kw [c] =
     (if c = CHR ''{'' then Raise (ValueError ''Single '{' encountered in format string'')
      else if c = CHR ''}'' then Raise (ValueError ''Single '}' encountered in format string'')
      else Return [c])"
| "fmt_text kw (c # d # cs) =
     (if c = CHR ''{'' then
        (if d = CHR ''{'' then emit ''{'' (fmt_text kw cs) else fmt_field kw [] (d # cs))
      else if c = CHR ''}'' then
        (if d = CHR ''}'' then emit ''}'' (fmt_text kw cs)
         else Raise (ValueError ''Single '}' encountered in format string''))
      else emit [c] (fmt_text kw (d # cs)))"
| "fmt_field kw field_name [] = Raise (ValueError ''expected '}' before end of string'')"
| "fmt_field kw field_name (c # cs) =
     (if c = CHR ''}'' then
        (case get_field kw field_name of
           Return s \<Rightarrow> emit s (fmt_text kw cs)
         | Raise e \<Rightarrow> Raise e
         | Unmodelled \<Rightarrow> Unmodelled)
      else if c = CHR ''{'' then Raise (ValueError ''unexpected '{' in field name'')
      else if c \<in> set ''!:.['' then Unmodelled
      else fmt_field kw (field_name @ [c]) cs)"

text \<open>
  A Python identifier, which every parameter name is: a letter or an underscore, then
  letters, digits and underscores.
\<close>

definition name_start :: "char \<Rightarrow> bool" where
  "name_start c =
     (c \<in> set ''abcdefghijklmnopqrstuvwxyzABCDEFGHIJKLMNOPQRSTUVWXYZ_'')"

definition name_char :: "char \<Rightarrow> bool" where
  "name_char c = (name_start c \<or> is_digit c)"

fun is_identifier :: "string \<Rightarrow> bool" where
  "is_identifier [] = False"
| "is_identifier (c # cs) = (name_start c \<and> list_all name_char cs)"

text \<open>
  \<^verbatim>\<open>template.format(**kwargs, k1=v1, ...)\<close>: a keyword that \<open>kwargs\<close> already holds is
  a \<^verbatim>\<open>TypeError\<close> of the call, raised before any formatting.
\<close>

definition str_format ::
  "string \<Rightarrow> (string \<times> pyval) list \<Rightarrow> (string \<times> pyval) list \<Rightarrow> string outcome" where
  "str_format template kwargs keywords =
     (case find (\<lambda>kv. fst kv \<in> set (map fst kwargs)) keywords of
        Some kv \<Rightarrow>
          Raise (TypeError (''str.format() got multiple values for keyword argument ''
                            @ [CHR 0x27] @ fst kv @ [CHR 0x27]))
      | None \<Rightarrow> fmt_text (kwargs @ keywords) template)"

text \<open>
  The same call made while an exception is being handled, as in an \<^verbatim>\<open>except\<close> block:
  there CPython 3.11 reports the keyword that \<open>kwargs\<close> already holds as a
  \<^verbatim>\<open>KeyError\<close> of that keyword.
\<close>

definition str_format_except ::
  "string \<Rightarrow> (string \<times> pyval) list \<Rightarrow> (string \<times> pyval) list \<Rightarrow> string outcome" where
  "str_format_except template kwargs keywords =
     (case find (\<lambda>kv. fst kv \<in> set (map fst kwargs)) keywords of
        Some kv \<Rightarrow> Raise (KeyError (fst kv))
      | None \<Rightarrow> fmt_text (kwargs @ keywords) template)"

section \<open>JSON values, requests and the world outside\<close>

text \<open>A finite float \<open>m * 2 ^ e\<close> is \<open>JFloat m e\<close>; an object keeps its items in order.\<close>

datatype json =
    JNull
  | JBool bool
  | JInt int
  | JFloat int int
  | JStr string
  | JArr "json list"
  | JObj "(string \<times> json) list"

datatype req_data = Dumped json | FormDict "(string \<times> string) list"

record request =
  req_method :: string
  req_url :: string
  req_headers :: "(string \<times> string) list"
  req_data :: req_data

text \<open>
  What the code reaches outside itself: the wall clock, already formatted with
  \<^verbatim>\<open>strftime("%Y-%m-%d %H:%M:%S")\<close>; the requests issued so far; the answer of the
  transport to a request (the response text, or the error it raises); the decoder
  \<^verbatim>\<open>json.loads\<close>; and the order in which the interpreter enumerates the set built
  from a list.
\<close>

record world =
  now :: string
  wire :: "request list"
  server :: "request \<Rightarrow> string outcome"
  json_loads :: "string \<Rightarrow> json outcome"
  set_order :: "string list \<Rightarrow> string list"

definition requests_request ::
  "string \<Rightarrow> string \<Rightarrow> (string \<times> string) list \<Rightarrow> req_data \<Rightarrow> world
     \<Rightarrow> string outcome \<times> world" where
  "requests_request method url hdrs dat w =
     (let r = \<lparr>req_method = method, req_url = url, req_headers = hdrs, req_data = dat\<rparr>
      in (server w r, w\<lparr>wire := wire w @ [r]\<rparr>))"

section \<open>The client\<close>

record roam =
  bot_name :: string
  bot_id :: string
  image_url :: string
  token :: string
  headers :: "(string \<times> string) list"
  base :: "(string \<times> json) list"
  channels :: "string list option"

text \<open>
  The \<open>channels\<close> argument of the constructor is checked at run time, so its model
  holds the values the check can meet: \<^verbatim>\<open>None\<close>, a list, and values of other
  types, among them the sequence types \<^verbatim>\<open>tuple\<close> and \<^verbatim>\<open>str\<close>.
\<close>

datatype channels_arg =
    ArgNone
  | ArgList "string list"
  | ArgTuple "string list"
  | ArgStr string
  | ArgInt int

definition Roam_init ::
  "string \<Rightarrow> string \<Rightarrow> string \<Rightarrow> string \<Rightarrow> (string \<times> string) list option \<Rightarrow> channels_arg
     \<Rightarrow> roam outcome" where
  "Roam_init bot_name' bot_id' image_url' token' headers' channels' =
     (let hdrs0 = [(''Content-Type'', ''application/json''),
                   (''Accept'', ''application/json''),
                   (''Authorization'', ''Bearer '' @ token')];
          hdrs = (case headers' of
                    None \<Rightarrow> hdrs0
                  | Some h \<Rightarrow> fold (\<lambda>kv. AList.update (fst kv) (snd kv)) h hdrs0);
          base' = [(''sender'', JObj [(''id'', JStr bot_id'),
                                      (''name'', JStr bot_name'),
                                      (''imageUrl'', JStr image_url')])];
          self = \<lparr>bot_name = bot_name', bot_id = bot_id', image_url = image_url',
                  token = token', headers = hdrs, base = base', channels = None\<rparr>
      in case channels' of
           ArgList cs \<Rightarrow> Return (self\<lparr>channels := Some cs\<rparr>)
         | ArgNone \<Rightarrow> Return (self\<lparr>channels := None\<rparr>)
         | _ \<Rightarrow> Raise (ValueError ''Channels can only be passed as a list.''))"

text \<open>
  \<^verbatim>\<open>send_message\<close>. The three branches are those of the source, in its order; the
  recipients are \<^verbatim>\<open>None\<close> (JSON \<^verbatim>\<open>null\<close>) when the first branch finds no default.
\<close>

definition send_message ::
  "roam \<Rightarrow> string \<Rightarrow> string list option \<Rightarrow> world \<Rightarrow> unit outcome \<times> world" where
  "send_message self message channels' w =
     (let url = ''https://api.ro.am/v1/chat.sendMessage'';
          payload = AList.update ''text'' (JStr message) (base self);
          resolved =
            (case channels' of
               None \<Rightarrow> Return (channels self)
             | Some cs \<Rightarrow>
                 (case channels self of
                    Some ds \<Rightarrow> Return (Some (set_order w (ds @ cs)))
                  | None \<Rightarrow>
                      Raise (ValueError
                        ''No Channel passed at init or during message building.'')))
      in case resolved of
           Raise e \<Rightarrow> (Raise e, w)
         | Unmodelled \<Rightarrow> (Unmodelled, w)
         | Return recipients \<Rightarrow>
             (let payload' = AList.update ''recipients''
                    (case recipients of None \<Rightarrow> JNull | Some rs \<Rightarrow> JArr (map JStr rs))
                    payload
              in case requests_request ''POST'' url (headers self) (Dumped (JObj payload')) w of
                   (Return text, w') \<Rightarrow> (Return (), w')
                 | (Raise e, w') \<Rightarrow> (Raise e, w')
                 | (Unmodelled, w') \<Rightarrow> (Unmodelled, w')))"

subsection \<open>\<^verbatim>\<open>list_channels\<close> and \<^verbatim>\<open>test_connection\<close>\<close>

text \<open>
  \<^verbatim>\<open>RoamGroup\<close> is a \<^verbatim>\<open>TypedDict\<close>, so \<^verbatim>\<open>RoamGroup(channel)\<close> is
  \<^verbatim>\<open>dict(channel)\<close>: a copy of the items of a dictionary, and whatever \<^verbatim>\<open>dict\<close>
  makes of another value.
\<close>

fun RoamGroup :: "json \<Rightarrow> (string \<times> json) list outcome" where
  "RoamGroup (JObj items) = Return items"
| "RoamGroup JNull = Raise (TypeError '''NoneType' object is not iterable'')"
| "RoamGroup (JBool b) = Raise (TypeError '''bool' object is not iterable'')"
| "RoamGroup (JInt i) = Raise (TypeError '''int' object is not iterable'')"
| "RoamGroup (JFloat m e) = Raise (TypeError '''float' object is not iterable'')"
| "RoamGroup (JStr s) =
     (if s = [] then Return []
      else Raise (ValueError
             ''dictionary update sequence element #0 has length 1; 2 is required''))"
| "RoamGroup (JArr xs) = (if xs = [] then Return [] else Unmodelled)"

text \<open>A list comprehension: the elements in order, stopping at the first that raises.\<close>

fun comprehension :: "('a \<Rightarrow> 'b outcome) \<Rightarrow> 'a list \<Rightarrow> 'b list outcome" where
  "comprehension f [] = Return []"
| "comprehension f (x # xs) =
     (case f x of
        Return y \<Rightarrow>
          (case comprehension f xs of
             Return ys \<Rightarrow> Return (y # ys)
           | Raise e \<Rightarrow> Raise e
           | Unmodelled \<Rightarrow> Unmodelled)
      | Raise e \<Rightarrow> Raise e
      | Unmodelled \<Rightarrow> Unmodelled)"

definition list_channels :: "roam \<Rightarrow> world \<Rightarrow> (string \<times> json) list list outcome \<times> world" where
  "list_channels self w =
     (case requests_request ''GET'' ''https://api.ro.am/v1/groups.list'' (headers self)
             (FormDict []) w of
        (Raise e, w') \<Rightarrow> (Raise e, w')
      | (Unmodelled, w') \<Rightarrow> (Unmodelled, w')
      | (Return text, w') \<Rightarrow>
          (case json_loads w' text of
             Raise e \<Rightarrow> (Raise e, w')
           | Unmodelled \<Rightarrow> (Unmodelled, w')
           | Return channels' \<Rightarrow>
               (case channels' of
                  JArr xs \<Rightarrow> (comprehension RoamGroup xs, w')
                | _ \<Rightarrow> (Raise (ValueError ''Unexpected Response from Roam Server''), w'))))"

fun type_name :: "json \<Rightarrow> string" where
  "type_name JNull = ''NoneType''"
| "type_name (JBool b) = ''bool''"
| "type_name (JInt i) = ''int''"
| "type_name (JFloat m e) = ''float''"
| "type_name (JStr s) = ''str''"
| "type_name (JArr xs) = ''list''"
| "type_name (JObj items) = ''dict''"

text \<open>The values that \<^verbatim>\<open>dict()\<close> cannot iterate: numbers, booleans and \<^verbatim>\<open>None\<close>.\<close>

fun not_iterable :: "json \<Rightarrow> bool" where
  "not_iterable JNull = True"
| "not_iterable (JBool b) = True"
| "not_iterable (JInt i) = True"
| "not_iterable (JFloat m e) = True"
| "not_iterable (JStr s) = False"
| "not_iterable (JArr xs) = False"
| "not_iterable (JObj items) = False"

definition test_connection :: "roam \<Rightarrow> world \<Rightarrow> bool outcome \<times> world" where
  "test_connection self w =
     (case requests_request ''GET'' ''https://api.ro.am/v1/test'' (headers self)
             (FormDict []) w of
        (Raise e, w') \<Rightarrow> (Raise e, w')
      | (Unmodelled, w') \<Rightarrow> (Unmodelled, w')
      | (Return text, w') \<Rightarrow>
          (case json_loads w' text of
             Raise e \<Rightarrow> (Raise e, w')
           | Unmodelled \<Rightarrow> (Unmodelled, w')
           | Return resp \<Rightarrow>
               (case resp of
                  JObj items \<Rightarrow> (Return (map_of items ''status'' = Some (JStr ''ok'')), w')
                | _ \<Rightarrow>
                    (Raise (AttributeError
                       ([CHR 0x27] @ type_name resp @ ''' object has no attribute 'get''
                        @ [CHR 0x27])),
                     w'))))"

section \<open>The \<^verbatim>\<open>notify\<close> decorator\<close>

text \<open>
  A callable: its \<^verbatim>\<open>__name__\<close> and its effect on a call with positional and keyword
  arguments. The call may change the world (time passes while it runs).
\<close>

record 'r pyfunc =
  pyfunc_name :: string
  pyfunc_call :: "pyval list \<Rightarrow> (string \<times> pyval) list \<Rightarrow> world \<Rightarrow> 'r outcome \<times> world"

text \<open>The four keywords that both \<^verbatim>\<open>format\<close> calls add to \<open>**kwargs\<close>, in their order.\<close>

definition format_keywords ::
  "string \<Rightarrow> string \<Rightarrow> string \<Rightarrow> string \<Rightarrow> (string \<times> pyval) list" where
  "format_keywords func_start_time func_end_time func_exception func_name =
     [(''func_start_time'', PyStr func_start_time),
      (''func_end_time'', PyStr func_end_time),
      (''func_exception'', PyStr func_exception),
      (''func_name'', PyStr func_name)]"

text \<open>
  The \<^verbatim>\<open>except Exception as e\<close> block. An exception of the block itself (from
  \<^verbatim>\<open>format\<close> or from \<^verbatim>\<open>send_message\<close>) leaves it in place of \<open>e\<close>.
\<close>

definition notify_except ::
  "roam \<Rightarrow> string \<Rightarrow> string list option \<Rightarrow> string \<Rightarrow> (string \<times> pyval) list \<Rightarrow> string
     \<Rightarrow> pyexc \<Rightarrow> world \<Rightarrow> 'r outcome \<times> world" where
  "notify_except self message channels' func_name kwargs func_start_time e w =
     (if \<not> is_Exception e then (Raise e, w)
      else
        case str_format_except message kwargs
               (format_keywords func_start_time ''DID NOT COMPLETE'' (str_exc e) func_name) of
          Raise e' \<Rightarrow> (Raise e', w)
        | Unmodelled \<Rightarrow> (Unmodelled, w)
        | Return text \<Rightarrow>
            (case send_message self text channels' w of
               (Return u, w') \<Rightarrow> (Raise e, w')
             | (Raise e', w') \<Rightarrow> (Raise e', w')
             | (Unmodelled, w') \<Rightarrow> (Unmodelled, w')))"

text \<open>
  \<open>notify self message channels' message_success func\<close> is the decorated callable
  \<^verbatim>\<open>wrapped\<close>. The \<^verbatim>\<open>try\<close> block holds the call of \<open>func\<close> and the success
  notification, so an exception of either reaches the \<^verbatim>\<open>except\<close> block.
\<close>

definition notify ::
  "roam \<Rightarrow> string \<Rightarrow> string list option \<Rightarrow> string option \<Rightarrow> 'r pyfunc
     \<Rightarrow> pyval list \<Rightarrow> (string \<times> pyval) list \<Rightarrow> world \<Rightarrow> 'r outcome \<times> world" where
  "notify self message channels' message_success func args kwargs w =
     (let func_start_time = now w;
          handler = notify_except self message channels' (pyfunc_name func) kwargs
                      func_start_time
      in case pyfunc_call func args kwargs w of
           (Raise e, w1) \<Rightarrow> handler e w1
         | (Unmodelled, w1) \<Rightarrow> (Unmodelled, w1)
         | (Return val, w1) \<Rightarrow>
             (let func_end_time = now w1 in
              case message_success of
                None \<Rightarrow> (Return val, w1)
              | Some template \<Rightarrow>
                  (case str_format template kwargs
                          (format_keywords func_start_time func_end_time ''DID NOT FAIL''
                             (pyfunc_name func)) of
                     Raise e \<Rightarrow> handler e w1
                   | Unmodelled \<Rightarrow> (Unmodelled, w1)
                   | Return text \<Rightarrow>
                       (case send_message self text channels' w1 of
                          (Return u, w2) \<Rightarrow> (Return val, w2)
                        | (Raise e, w2) \<Rightarrow> handler e w2
                        | (Unmodelled, w2) \<Rightarrow> (Unmodelled, w2)))))"

section \<open>Concrete inputs\<close>

text \<open>The client that \<^verbatim>\<open>Roam("bot", "7", "http://img", "tok", channels=...)\<close> builds.\<close>

definition client :: "string list option \<Rightarrow> roam" where
  "client cs =
     \<lparr>bot_name = ''bot'', bot_id = ''7'', image_url = ''http://img'', token = ''tok'',
      headers = [(''Content-Type'', ''application/json''),
                 (''Accept'', ''application/json''),
                 (''Authorization'', ''Bearer tok'')],
      base = [(''sender'', JObj [(''id'', JStr ''7''), (''name'', JStr ''bot''),
                                 (''imageUrl'', JStr ''http://img'')])],
      channels = cs\<rparr>"

text \<open>
  A world whose server answers every request with the text \<open>body\<close>, which decodes to
  \<open>decoded\<close>, and whose sets enumerate in order of first insertion.
\<close>

definition world0 :: "string \<Rightarrow> json \<Rightarrow> world" where
  "world0 body decoded =
     \<lparr>now = ''2023-08-30 14:35:35'', wire = [],
      server = (\<lambda>r. Return body),
      json_loads = (\<lambda>t. if t = body then Return decoded
                         else Raise (OtherException ''JSONDecodeError'' ''Expecting value'')),
      set_order = remdups\<rparr>"

definition quiet :: world where
  "quiet = world0 [] JNull"

definition raising :: "string \<Rightarrow> pyexc \<Rightarrow> pyval pyfunc" where
  "raising n e = \<lparr>pyfunc_name = n, pyfunc_call = (\<lambda>args kwargs w. (Raise e, w))\<rparr>"

definition returning :: "string \<Rightarrow> pyval \<Rightarrow> pyval pyfunc" where
  "returning n v =
     \<lparr>pyfunc_name = n,
      pyfunc_call = (\<lambda>args kwargs w. (Return v, w\<lparr>now := ''2023-08-30 14:39:42''\<rparr>))\<rparr>"

definition sent_request :: "roam \<Rightarrow> string \<Rightarrow> json \<Rightarrow> request" where
  "sent_request self message recipients =
     \<lparr>req_method = ''POST'', req_url = ''https://api.ro.am/v1/chat.sendMessage'',
      req_headers = headers self,
      req_data = Dumped (JObj (AList.update ''recipients'' recipients
                                 (AList.update ''text'' (JStr message) (base self))))\<rparr>"

definition get_request :: "roam \<Rightarrow> string \<Rightarrow> request" where
  "get_request self url =
     \<lparr>req_method = ''GET'', req_url = url, req_headers = headers self,
      req_data = FormDict []\<rparr>"

section \<open>Properties of the formatter\<close>

lemma emit_emit: "emit a (emit b x) = emit (a @ b) x"
  by (cases x) simp_all

lemma emit_Nil: "emit [] x = x"
  by (cases x) simp_all

lemma emit_Return_iff: "emit a x = Return s \<longleftrightarrow> (\<exists>t. x = Return t \<and> s = a @ t)"
  by (cases x) auto

text \<open>A prefix that formats on its own leaves the scan in literal text.\<close>

lemma fmt_append:
  "fmt_text kw pre = Return s \<Longrightarrow> fmt_text kw (pre @ rest) = emit s (fmt_text kw rest)"
  "fmt_field kw acc pre' = Return s' \<Longrightarrow>
     fmt_field kw acc (pre' @ rest) = emit s' (fmt_text kw rest)"
proof (induction kw pre and kw acc pre' arbitrary: s and s' rule: fmt_text_fmt_field.induct)
  case (1 kw)
  then show ?case by (simp add: emit_Nil)
next
  case (2 kw c)
  then show ?case by (cases rest) (auto simp: emit_Nil split: if_splits)
next
  case (3 kw c d cs)
  show ?case
  proof (cases "c = CHR ''{''")
    case True
    note c = this
    show ?thesis
    proof (cases "d = CHR ''{''")
      case True
      with c "3.prems" obtain t where t: "fmt_text kw cs = Return t" "s = ''{'' @ t"
        by (auto simp: emit_Return_iff)
      from "3.IH"(1) [OF c True t(1)] show ?thesis using c True t by (simp add: emit_emit)
    next
      case False
      with c "3.prems" have "fmt_field kw [] (d # cs) = Return s" by simp
      from "3.IH"(2) [OF c False this] show ?thesis using c False by simp
    qed
  next
    case False
    note c = this
    show ?thesis
    proof (cases "c = CHR ''}''")
      case True
      with c "3.prems" have d: "d = CHR ''}''" by (auto split: if_splits)
      with c True "3.prems" obtain t where t: "fmt_text kw cs = Return t" "s = ''}'' @ t"
        by (auto simp: emit_Return_iff)
      from "3.IH"(3) [OF c True d t(1)] show ?thesis using c True d t by (simp add: emit_emit)
    next
      case False
      with c "3.prems" obtain t where t: "fmt_text kw (d # cs) = Return t" "s = [c] @ t"
        by (auto simp: emit_Return_iff)
      have "fmt_text kw ((d # cs) @ rest) = emit t (fmt_text kw rest)"
        using "3.IH"(4) [OF c False t(1)] .
      then show ?thesis using c False t by (simp add: emit_emit)
    qed
  qed
next
  case (4 kw field_name)
  then show ?case by simp
next
  case (5 kw field_name c cs)
  show ?case
  proof (cases "c = CHR ''}''")
    case True
    with "5.prems" obtain v t where v: "get_field kw field_name = Return v"
      and t: "fmt_text kw cs = Return t" "s' = v @ t"
      by (auto simp: emit_Return_iff split: outcome.splits)
    from "5.IH"(1) [OF True v t(1)] show ?thesis using True v t by (simp add: emit_emit)
  next
    case False
    with "5.prems" have o: "c \<noteq> CHR ''{''" "c \<notin> set ''!:.[''"
      and f: "fmt_field kw (field_name @ [c]) cs = Return s'"
      by (auto split: if_splits)
    from "5.IH"(2) [OF False o f] show ?thesis using False o by simp
  qed
qed

lemma fmt_field_name:
  "list_all name_char n \<Longrightarrow>
   fmt_field kw acc (n @ CHR ''}'' # rest) =
     (case get_field kw (acc @ n) of
        Return s \<Rightarrow> emit s (fmt_text kw rest)
      | Raise e \<Rightarrow> Raise e
      | Unmodelled \<Rightarrow> Unmodelled)"
  by (induction n arbitrary: acc) (auto simp: name_char_def name_start_def is_digit_def)

lemma get_field_missing:
  "is_identifier n \<Longrightarrow> map_of kw n = None \<Longrightarrow> get_field kw n = Raise (KeyError n)"
  by (cases n) (auto simp: get_field_def name_start_def is_digit_def)

lemma is_identifier_chars:
  "is_identifier n \<Longrightarrow> list_all name_char n \<and> n \<noteq> [] \<and> hd n \<noteq> CHR ''{''"
  by (cases n) (auto simp: name_char_def name_start_def)

lemma fmt_text_missing_field:
  assumes "is_identifier n" and "map_of kw n = None" and "fmt_text kw pre = Return s"
  shows "fmt_text kw (pre @ ''{'' @ n @ ''}'' @ rest) = Raise (KeyError n)"
proof -
  obtain c cs where n: "n = c # cs" using assms(1) by (cases n) auto
  have c: "c \<noteq> CHR ''{''" using is_identifier_chars [OF assms(1)] n by simp
  have "fmt_text kw (''{'' @ n @ ''}'' @ rest) = fmt_field kw [] (n @ CHR ''}'' # rest)"
    using c by (simp add: n)
  also have "\<dots> = Raise (KeyError n)"
    using is_identifier_chars [OF assms(1)] get_field_missing [OF assms(1,2)]
    by (simp add: fmt_field_name)
  finally show ?thesis
    using fmt_append(1) [OF assms(3), of "''{'' @ n @ ''}'' @ rest"] by simp
qed

lemma str_format_Return:
  assumes a: "str_format t kwargs kws = Return text"
  shows "fmt_text (kwargs @ kws) t = Return text \<and> (\<forall>kv \<in> set kws. fst kv \<notin> fst ` set kwargs)"
proof (cases "find (\<lambda>kv. fst kv \<in> set (map fst kwargs)) kws")
  case None
  then have "\<forall>kv \<in> set kws. fst kv \<notin> set (map fst kwargs)"
    unfolding find_None_iff by blast
  moreover have "fmt_text (kwargs @ kws) t = Return text"
    using a None unfolding str_format_def by simp
  ultimately show ?thesis by simp
next
  case (Some kv)
  then show ?thesis using a unfolding str_format_def by simp
qed


text \<open>Where no keyword clashes, the two calls agree.\<close>

lemma str_format_except_no_clash:
  assumes "\<forall>kv \<in> set kws. fst kv \<notin> fst ` set kwargs"
  shows "str_format_except t kwargs kws = fmt_text (kwargs @ kws) t"
proof -
  have "\<forall>kv \<in> set kws. fst kv \<notin> set (map fst kwargs)"
    using assms by simp
  then have "find (\<lambda>kv. fst kv \<in> set (map fst kwargs)) kws = None"
    unfolding find_None_iff by blast
  then show ?thesis unfolding str_format_except_def by simp
qed



lemma map_of_context_missing:
  assumes "n \<notin> fst ` set kwargs"
    and "n \<notin> {''func_start_time'', ''func_end_time'', ''func_exception'', ''func_name''}"
  shows "map_of (kwargs @ format_keywords a b c d) n = None"
  using assms by (auto simp: map_of_eq_None_iff format_keywords_def)


section \<open>Properties of the sender\<close>

lemma send_message_both:
  "channels self = Some ds \<Longrightarrow>
   send_message self message (Some cs) w =
     (map_outcome (\<lambda>t. ())
        (server w (sent_request self message (JArr (map JStr (set_order w (ds @ cs)))))),
      w\<lparr>wire := wire w @ [sent_request self message (JArr (map JStr (set_order w (ds @ cs))))]\<rparr>)"
  by (simp add: send_message_def requests_request_def sent_request_def Let_def
      split: outcome.splits)

lemma send_message_call_only:
  "channels self = None \<Longrightarrow>
   send_message self message (Some cs) w =
     (Raise (ValueError ''No Channel passed at init or during message building.''), w)"
  by (simp add: send_message_def Let_def)


lemma comprehension_objects: "comprehension RoamGroup (map JObj dicts) = Return dicts"
  by (induction dicts) simp_all

lemma RoamGroup_not_iterable:
  "not_iterable x \<Longrightarrow>
   RoamGroup x = Raise (TypeError ([CHR 0x27] @ type_name x @ ''' object is not iterable''))"
  by (cases x) simp_all

lemma comprehension_stops:
  "RoamGroup x = Raise e \<Longrightarrow>
   comprehension RoamGroup (map JObj dicts @ x # rest) = Raise e"
  by (induction dicts) simp_all

text \<open>The definitions that evaluate a concrete call.\<close>

lemmas concrete =
  client_def quiet_def world0_def raising_def returning_def sent_request_def get_request_def
  notify_def notify_except_def str_format_def str_format_except_def format_keywords_def
  send_message_def
  requests_request_def list_channels_def test_connection_def Roam_init_def get_field_def
  is_digit_def py_repr_def repr_quote_def repr_char_def Let_def

section \<open>Channel resolution in \<^verbatim>\<open>send_message\<close>\<close>

text \<open>
  Claim C2: when call-site channels are given and the client has no default channels,
  \<^verbatim>\<open>send_message\<close> should use the call-site channels as they are and send.
  The code does not: this is the \<^verbatim>\<open>else\<close> branch, which raises
  \<^verbatim>\<open>ValueError("No Channel passed at init or during message building.")\<close> and
  sends nothing, although a channel was passed during message building. Evaluated for
  \<^verbatim>\<open>Roam(..., channels=None).send_message("hi", channels=["c"])\<close>.
\<close>

theorem send_message_call_site_channels_only:
  "send_message (client None) ''hi'' (Some [''c'']) quiet =
     (Raise (ValueError ''No Channel passed at init or during message building.''), quiet)"
  by (simp add: send_message_call_only client_def)

text \<open>
  Claim C3: with neither call-site nor default channels, \<^verbatim>\<open>send_message\<close> should
  fail with a configuration error before any network call. The code does not: the first
  branch takes the default, which is \<^verbatim>\<open>None\<close>, and the request is posted with
  \<^verbatim>\<open>"recipients": null\<close>. Evaluated for
  \<^verbatim>\<open>Roam(..., channels=None).send_message("hi")\<close>.
\<close>

theorem send_message_no_channels:
  "send_message (client None) ''hi'' None quiet =
     (Return (), quiet\<lparr>wire := [sent_request (client None) ''hi'' JNull]\<rparr>)"
  by (simp add: concrete)

text \<open>
  Claim C5: when both the default channels \<open>ds\<close> and the call-site channels \<open>cs\<close>
  are lists, exactly one request is posted, and its recipients are a list without
  duplicates whose elements are those of \<open>ds\<close> and of \<open>cs\<close>. The order is the one
  in which the interpreter enumerates the set, of which only this is assumed: it
  enumerates each element once. The outcome of the call is the answer of the transport.
\<close>

theorem send_message_union:
  assumes "channels self = Some ds"
    and "distinct (set_order w (ds @ cs))"
    and "set (set_order w (ds @ cs)) = set (ds @ cs)"
  shows "\<exists>rs. send_message self message (Some cs) w =
            (map_outcome (\<lambda>t. ()) (server w (sent_request self message (JArr (map JStr rs)))),
             w\<lparr>wire := wire w @ [sent_request self message (JArr (map JStr rs))]\<rparr>)
          \<and> distinct rs \<and> set rs = set ds \<union> set cs"
  using assms by (intro exI [of _ "set_order w (ds @ cs)"]) (simp add: send_message_both)

text \<open>The example of the specification: defaults \<open>["a", "b"]\<close>, call \<open>["b", "c"]\<close>.\<close>

theorem send_message_union_witness:
  "channels (client (Some [''a'', ''b''])) = Some [''a'', ''b''] \<and>
   (\<exists>rs. send_message (client (Some [''a'', ''b''])) ''hi'' (Some [''b'', ''c'']) quiet =
            (Return (),
             quiet\<lparr>wire := [sent_request (client (Some [''a'', ''b''])) ''hi'' (JArr (map JStr rs))]\<rparr>)
          \<and> distinct rs \<and> set rs = {''a'', ''b'', ''c''})"
proof -
  have h1: "channels (client (Some [''a'', ''b''])) = Some [''a'', ''b'']"
    by (simp add: client_def)
  have h2: "distinct (set_order quiet ([''a'', ''b''] @ [''b'', ''c'']))"
    by (simp add: quiet_def world0_def)
  have h3: "set (set_order quiet ([''a'', ''b''] @ [''b'', ''c''])) = set ([''a'', ''b''] @ [''b'', ''c''])"
    by (simp add: quiet_def world0_def)
  have s: "server quiet r = Return []" "wire quiet = []" for r
    by (simp_all add: quiet_def world0_def)
  have u: "set [''a'', ''b''] \<union> set [''b'', ''c''] = {''a'', ''b'', ''c''}"
    by auto
  from send_message_union [OF h1 h2 h3, of "''hi''"]
  obtain rs where r: "send_message (client (Some [''a'', ''b''])) ''hi'' (Some [''b'', ''c'']) quiet =
        (map_outcome (\<lambda>t. ())
           (server quiet (sent_request (client (Some [''a'', ''b''])) ''hi'' (JArr (map JStr rs)))),
         quiet\<lparr>wire := wire quiet @
           [sent_request (client (Some [''a'', ''b''])) ''hi'' (JArr (map JStr rs))]\<rparr>)"
    and d: "distinct rs" and u': "set rs = set [''a'', ''b''] \<union> set [''b'', ''c'']"
    by blast
  have "send_message (client (Some [''a'', ''b''])) ''hi'' (Some [''b'', ''c'']) quiet =
        (Return (),
         quiet\<lparr>wire := [sent_request (client (Some [''a'', ''b''])) ''hi'' (JArr (map JStr rs))]\<rparr>)"
    unfolding r by (simp add: s)
  with h1 d u' u show ?thesis by blast
qed

text \<open>
  Claim C10: the empty list is a valid \<open>channels\<close> argument of the constructor and
  counts as defaults being present. The client built with it holds \<open>Some []\<close>, and a
  \<^verbatim>\<open>send_message\<close> with call-site channels \<open>cs\<close> raises no configuration error:
  it posts one request whose recipients are the elements of \<open>cs\<close> without duplicates,
  and its outcome is the answer of the transport.
\<close>

theorem send_message_empty_defaults:
  assumes "distinct (set_order w cs)" and "set (set_order w cs) = set cs"
  shows "\<exists>self. Roam_init bot_name' bot_id' image_url' token' headers' (ArgList []) = Return self
           \<and> channels self = Some []
           \<and> (\<exists>rs. send_message self message (Some cs) w =
                  (map_outcome (\<lambda>t. ())
                     (server w (sent_request self message (JArr (map JStr rs)))),
                   w\<lparr>wire := wire w @ [sent_request self message (JArr (map JStr rs))]\<rparr>)
                \<and> distinct rs \<and> set rs = set cs)"
proof -
  obtain self where init: "Roam_init bot_name' bot_id' image_url' token' headers' (ArgList []) = Return self"
    and ch: "channels self = Some []"
    by (simp add: Roam_init_def Let_def)
  from send_message_both [OF ch, of message cs w] assms
  have "send_message self message (Some cs) w =
          (map_outcome (\<lambda>t. ())
             (server w (sent_request self message (JArr (map JStr (set_order w cs))))),
           w\<lparr>wire := wire w @ [sent_request self message (JArr (map JStr (set_order w cs)))]\<rparr>)"
    by simp
  with init ch assms show ?thesis by blast
qed

theorem send_message_empty_defaults_witness:
  "\<exists>self. Roam_init ''bot'' ''7'' ''http://img'' ''tok'' None (ArgList []) = Return self
      \<and> channels self = Some []
      \<and> (\<exists>rs. send_message self ''hi'' (Some [''c'', ''d'', ''c'']) quiet =
             (Return (), quiet\<lparr>wire := [sent_request self ''hi'' (JArr (map JStr rs))]\<rparr>)
           \<and> distinct rs \<and> set rs = {''c'', ''d''})"
proof -
  have o: "set_order quiet = remdups"
    by (simp add: quiet_def world0_def)
  have h1: "distinct (set_order quiet [''c'', ''d'', ''c''])"
    by (simp only: o distinct_remdups)
  have h2: "set (set_order quiet [''c'', ''d'', ''c'']) = set [''c'', ''d'', ''c'']"
    by (simp only: o set_remdups)
  have s: "server quiet r = Return []" "wire quiet = []" for r
    by (simp_all add: quiet_def world0_def)
  have u: "set [''c'', ''d'', ''c''] = {''c'', ''d''}"
    by auto
  from send_message_empty_defaults [OF h1 h2, of "''bot''" "''7''" "''http://img''" "''tok''" None "''hi''"]
  show ?thesis unfolding s u by simp
qed

section \<open>The constructor\<close>

text \<open>
  Claim C6 says that any sequence type is accepted as \<open>channels\<close>. The constructor
  tests \<^verbatim>\<open>isinstance(channels, list)\<close>, so a tuple, which is a sequence, is rejected.
\<close>

theorem Roam_init_tuple:
  "Roam_init ''bot'' ''7'' ''http://img'' ''tok'' None (ArgTuple [''a'', ''b'']) =
     Raise (ValueError ''Channels can only be passed as a list.'')"
  by (simp add: Roam_init_def Let_def)

text \<open>
  Claim C6, as amended: the constructor accepts \<^verbatim>\<open>None\<close>, which means no defaults,
  and a list, which becomes the defaults; every other value, the other sequence types
  among them, raises \<^verbatim>\<open>ValueError("Channels can only be passed as a list.")\<close>.
\<close>

theorem Roam_init_channels:
  "(case arg of
      ArgNone \<Rightarrow>
        \<exists>self. Roam_init bot_name' bot_id' image_url' token' headers' arg = Return self
           \<and> channels self = None
    | ArgList cs \<Rightarrow>
        \<exists>self. Roam_init bot_name' bot_id' image_url' token' headers' arg = Return self
           \<and> channels self = Some cs
    | _ \<Rightarrow>
        Roam_init bot_name' bot_id' image_url' token' headers' arg =
          Raise (ValueError ''Channels can only be passed as a list.''))"
  by (cases arg) (simp_all add: Roam_init_def Let_def)

section \<open>\<^verbatim>\<open>list_channels\<close> and \<^verbatim>\<open>test_connection\<close>\<close>

text \<open>
  Claim C8 says that every decoded list yields one record per element. The elements go
  through \<^verbatim>\<open>dict()\<close>, which raises on a number: the body \<^verbatim>\<open>[1]\<close> ends in a
  \<^verbatim>\<open>TypeError\<close>.
\<close>

theorem list_channels_non_object_element:
  "fst (list_channels (client None) (world0 ''[1]'' (JArr [JInt 1]))) =
     Raise (TypeError '''int' object is not iterable'')"
  by (simp add: concrete)

text \<open>
  Claim C8, as amended: when the transport answers and the body decodes, a decoded value
  that is not a list raises \<^verbatim>\<open>ValueError("Unexpected Response from Roam Server")\<close>;
  a decoded list of objects yields the items of each object, one record per element and
  in order, with no field checked; and a decoded list in which a number, a boolean or
  \<^verbatim>\<open>null\<close> follows zero or more objects raises the \<^verbatim>\<open>TypeError\<close> of \<^verbatim>\<open>dict()\<close>
  on that element.
\<close>

theorem list_channels_shape:
  assumes "server w (get_request self ''https://api.ro.am/v1/groups.list'') = Return text"
    and "json_loads w text = Return decoded"
  shows "((\<forall>xs. decoded \<noteq> JArr xs) \<longrightarrow>
            fst (list_channels self w) =
              Raise (ValueError ''Unexpected Response from Roam Server''))
       \<and> (\<forall>dicts. decoded = JArr (map JObj dicts) \<longrightarrow>
            fst (list_channels self w) = Return dicts)
       \<and> (\<forall>dicts x rest. decoded = JArr (map JObj dicts @ x # rest) \<and> not_iterable x \<longrightarrow>
            fst (list_channels self w) =
              Raise (TypeError ([CHR 0x27] @ type_name x @ ''' object is not iterable'')))"
proof -
  have unfold: "fst (list_channels self w) =
      (case decoded of
         JArr xs \<Rightarrow> comprehension RoamGroup xs
       | _ \<Rightarrow> Raise (ValueError ''Unexpected Response from Roam Server''))"
    using assms
    by (simp add: list_channels_def requests_request_def get_request_def split: json.splits)
  have a: "fst (list_channels self w) =
             Raise (ValueError ''Unexpected Response from Roam Server'')"
    if "\<forall>xs. decoded \<noteq> JArr xs"
    using that unfolding unfold by (cases decoded) simp_all
  have b: "fst (list_channels self w) = Return dicts"
    if "decoded = JArr (map JObj dicts)" for dicts
    using that unfolding unfold by (simp add: comprehension_objects)
  have c: "fst (list_channels self w) =
             Raise (TypeError ([CHR 0x27] @ type_name x @ ''' object is not iterable''))"
    if "decoded = JArr (map JObj dicts @ x # rest)" and "not_iterable x" for dicts x rest
    using that(1) comprehension_stops [OF RoamGroup_not_iterable [OF that(2)]]
    unfolding unfold by simp
  show ?thesis
    apply (intro conjI allI impI)
      apply (erule a)
     apply (erule b)
    apply (elim conjE)
    apply (rule c; assumption)
    done
qed

theorem list_channels_shape_witness:
  "fst (list_channels (client None)
          (world0 ''[{\"name\": \"ops\", \"roamId\": 3}, {}]''
             (JArr [JObj [(''name'', JStr ''ops''), (''roamId'', JInt 3)], JObj []]))) =
     Return [[(''name'', JStr ''ops''), (''roamId'', JInt 3)], []]
   \<and> fst (list_channels (client None)
          (world0 ''{\"error\": \"x\"}'' (JObj [(''error'', JStr ''x'')]))) =
     Raise (ValueError ''Unexpected Response from Roam Server'')
   \<and> fst (list_channels (client None) (world0 ''[{}, 2.5, {}]''
          (JArr [JObj [], JFloat 5 (- 1), JObj []]))) =
     Raise (TypeError '''float' object is not iterable'')"
proof -
  let ?w1 = "world0 ''[{\"name\": \"ops\", \"roamId\": 3}, {}]''
               (JArr [JObj [(''name'', JStr ''ops''), (''roamId'', JInt 3)], JObj []])"
  let ?w2 = "world0 ''{\"error\": \"x\"}'' (JObj [(''error'', JStr ''x'')])"
  let ?w3 = "world0 ''[{}, 2.5, {}]'' (JArr [JObj [], JFloat 5 (- 1), JObj []])"
  have a: "server (world0 body v) r = Return body" "json_loads (world0 body v) body = Return v"
    for body v r
    by (simp_all add: world0_def)
  have m1: "JArr [JObj [(''name'', JStr ''ops''), (''roamId'', JInt 3)], JObj []] =
             JArr (map JObj [[(''name'', JStr ''ops''), (''roamId'', JInt 3)], []])"
    by simp
  have m3: "JArr [JObj [], JFloat 5 (- 1), JObj []] =
              JArr (map JObj [[]] @ JFloat 5 (- 1) # [JObj []])
            \<and> not_iterable (JFloat 5 (- 1))"
    by simp
  have "fst (list_channels (client None) ?w1) =
          Return [[(''name'', JStr ''ops''), (''roamId'', JInt 3)], []]"
    using list_channels_shape [where w = ?w1 and self = "client None", OF a(1) a(2),
        THEN conjunct2, THEN conjunct1, THEN spec, THEN mp, OF m1] .
  moreover have "fst (list_channels (client None) ?w2) =
          Raise (ValueError ''Unexpected Response from Roam Server'')"
    using list_channels_shape [where w = ?w2 and self = "client None", OF a(1) a(2),
        THEN conjunct1]
    by simp
  moreover have "fst (list_channels (client None) ?w3) =
          Raise (TypeError '''float' object is not iterable'')"
    using list_channels_shape [where w = ?w3 and self = "client None", OF a(1) a(2),
        THEN conjunct2, THEN conjunct2, THEN spec, THEN spec, THEN spec, THEN mp, OF m3]
    by simp
  ultimately show ?thesis by simp
qed

text \<open>
  Claim C9 says that every decoded body gives a boolean, false where the field is
  absent. The code calls \<^verbatim>\<open>resp.get\<close>, which only a dictionary has: the body
  \<^verbatim>\<open>[]\<close> decodes to a list and the call raises \<^verbatim>\<open>AttributeError\<close>.
\<close>

theorem test_connection_not_an_object:
  "fst (test_connection (client None) (world0 ''[]'' (JArr []))) =
     Raise (AttributeError ('''list' object has no attribute 'get'' @ [CHR 0x27]))"
  by (simp add: concrete)

text \<open>
  Claim C9, as amended: when the transport answers and the body decodes to an object,
  \<^verbatim>\<open>test_connection\<close> returns whether the object has a \<open>status\<close> item equal to the
  string \<open>ok\<close>, so it is false for any other value and when the item is absent; when
  the body decodes to anything else (\<^verbatim>\<open>null\<close>, a boolean, a number, a string, a list)
  the call raises \<^verbatim>\<open>AttributeError\<close>.
\<close>

theorem test_connection_status:
  assumes "server w (get_request self ''https://api.ro.am/v1/test'') = Return text"
    and "json_loads w text = Return decoded"
  shows "(\<forall>items. decoded = JObj items \<longrightarrow>
            fst (test_connection self w) =
              Return (map_of items ''status'' = Some (JStr ''ok'')))
       \<and> ((\<forall>items. decoded \<noteq> JObj items) \<longrightarrow>
            fst (test_connection self w) =
              Raise (AttributeError
                ([CHR 0x27] @ type_name decoded @ ''' object has no attribute 'get''
                 @ [CHR 0x27])))"
  using assms
  by (cases decoded)
     (simp_all add: test_connection_def requests_request_def get_request_def)

theorem test_connection_status_witness:
  "fst (test_connection (client None)
          (world0 ''{\"status\": \"ok\"}'' (JObj [(''status'', JStr ''ok'')]))) = Return True
   \<and> fst (test_connection (client None)
          (world0 ''{\"status\": \"fail\"}'' (JObj [(''status'', JStr ''fail'')]))) = Return False
   \<and> fst (test_connection (client None) (world0 ''{}'' (JObj []))) = Return False
   \<and> fst (test_connection (client None) (world0 ''null'' JNull)) =
       Raise (AttributeError ('''NoneType' object has no attribute 'get'' @ [CHR 0x27]))"
proof -
  let ?w1 = "world0 ''{\"status\": \"ok\"}'' (JObj [(''status'', JStr ''ok'')])"
  let ?w2 = "world0 ''{\"status\": \"fail\"}'' (JObj [(''status'', JStr ''fail'')])"
  let ?w3 = "world0 ''{}'' (JObj [])"
  let ?w4 = "world0 ''null'' JNull"
  have a: "server (world0 body v) r = Return body" "json_loads (world0 body v) body = Return v"
    for body v r
    by (simp_all add: world0_def)
  have "fst (test_connection (client None) ?w1) = Return True"
    using test_connection_status [where w = ?w1 and self = "client None", OF a(1) a(2)]
    by simp
  moreover have "fst (test_connection (client None) ?w2) = Return False"
    using test_connection_status [where w = ?w2 and self = "client None", OF a(1) a(2)]
    by simp
  moreover have "fst (test_connection (client None) ?w3) = Return False"
    using test_connection_status [where w = ?w3 and self = "client None", OF a(1) a(2)]
    by simp
  moreover have "fst (test_connection (client None) ?w4) =
      Raise (AttributeError ('''NoneType' object has no attribute 'get'' @ [CHR 0x27]))"
    using test_connection_status [where w = ?w4 and self = "client None", OF a(1) a(2)]
    by simp
  ultimately show ?thesis by simp
qed

section \<open>The decorated call\<close>







text \<open>
  Neither notification is guarded. In the \<^verbatim>\<open>except\<close> block an exception of the
  formatting or of the sending is raised in place of \<open>e\<close>; after a normal return an
  exception of the success notification is handed to the \<^verbatim>\<open>except\<close> block, which
  never ends in a value.
\<close>

lemma notify_failure_path_unguarded:
  assumes "pyfunc_call func args kwargs w = (Raise e, w1)"
    and "is_Exception e"
  shows "(str_format_except message kwargs
            (format_keywords (now w) ''DID NOT COMPLETE'' (str_exc e) (pyfunc_name func)) =
          Raise e' \<longrightarrow>
          notify self message chans message_success func args kwargs w = (Raise e', w1))
       \<and> (str_format_except message kwargs
            (format_keywords (now w) ''DID NOT COMPLETE'' (str_exc e) (pyfunc_name func)) =
          Return m \<and> send_message self m chans w1 = (Raise e', w2) \<longrightarrow>
          notify self message chans message_success func args kwargs w = (Raise e', w2))"
  using assms by (simp add: notify_def notify_except_def Let_def)

lemma notify_success_path_unguarded:
  assumes "pyfunc_call func args kwargs w = (Return val, w1)"
  shows "(str_format template kwargs
            (format_keywords (now w) (now w1) ''DID NOT FAIL'' (pyfunc_name func)) =
          Raise e' \<longrightarrow>
          notify self message chans (Some template) func args kwargs w =
            notify_except self message chans (pyfunc_name func) kwargs (now w) e' w1)
       \<and> (str_format template kwargs
            (format_keywords (now w) (now w1) ''DID NOT FAIL'' (pyfunc_name func)) =
          Return m \<and> send_message self m chans w1 = (Raise e', w2) \<longrightarrow>
          notify self message chans (Some template) func args kwargs w =
            notify_except self message chans (pyfunc_name func) kwargs (now w) e' w2)"
  using assms by (simp add: notify_def Let_def)

text \<open>
  The same field in the failure template: the \<^verbatim>\<open>KeyError\<close> leaves the \<^verbatim>\<open>except\<close>
  block in place of the exception of the wrapped function.
\<close>

lemma notify_failure_template_missing_field:
  assumes "pyfunc_call func args kwargs w = (Raise e, w1)"
    and "is_Exception e"
    and "is_identifier n"
    and "n \<notin> fst ` set kwargs"
    and "n \<notin> {''func_start_time'', ''func_end_time'', ''func_exception'', ''func_name''}"
    and "str_format pre kwargs
           (format_keywords (now w) ''DID NOT COMPLETE'' (str_exc e) (pyfunc_name func)) =
         Return s"
  shows "notify self (pre @ ''{'' @ n @ ''}'' @ rest) chans message_success func args kwargs w =
           (Raise (KeyError n), w1)"
proof -
  let ?kws = "format_keywords (now w) ''DID NOT COMPLETE'' (str_exc e) (pyfunc_name func)"
  have pre: "fmt_text (kwargs @ ?kws) pre = Return s"
    and clash: "\<forall>kv \<in> set ?kws. fst kv \<notin> fst ` set kwargs"
    using str_format_Return [OF assms(6)] by simp_all
  have missing: "map_of (kwargs @ ?kws) n = None"
    using assms(4,5) by (rule map_of_context_missing)
  have "str_format_except (pre @ ''{'' @ n @ ''}'' @ rest) kwargs ?kws = Raise (KeyError n)"
    using fmt_text_missing_field [OF assms(3) missing pre]
    by (simp only: str_format_except_no_clash [OF clash])
  then show ?thesis
    using assms(1,2) by (simp add: notify_def notify_except_def Let_def)
qed




end
